theory Spec2Isabelle
  imports Main "HOL-Library.Word"
begin

section \<open>Archiver metadata of the monitor (src/monitor/archiver_metadata.c)\<close>

text \<open>
  The file holds four C functions: \<open>GetArchiver\<close>, \<open>AddArchiver\<close>, \<open>RemoveArchiver\<close>
  (the repository operations Get, Add and Remove of the specification) and
  \<open>AutoFailoverArchiverGetDatum\<close> (the marshaler, ToResponse). The three repository
  operations talk to the database through PostgreSQL's SPI; the model threads an explicit
  \<open>world\<close> (table, sequence, SPI globals) through them, and \<open>elog(ERROR, ...)\<close> is an
  \<open>Inl\<close> result paired with the world as the abort that the error unwinds into
  leaves it.
\<close>

subsection \<open>Machine integers, datums, errors\<close>

type_synonym int32 = "32 word"
type_synonym int64 = "64 word"

datatype Oid = INT8OID | INT4OID | TEXTOID

text \<open>
  A \<open>Datum\<close> is one machine word: either a value passed by value (the integers), or a
  pointer to a text value. \<open>(Datum) 0\<close> is \<open>DatumValue 0\<close>.
\<close>

datatype Datum = DatumValue int64 | DatumText string

text \<open>
  \<open>Int32GetDatum\<close> takes an \<open>int32\<close>; a wider C argument is converted to \<open>int32\<close> at the
  call (written \<open>ucast\<close> at the call sites below) and the result is the sign extension
  to the width of a datum. \<open>DatumGetInt32\<close> keeps the low 32 bits of the datum,
  \<open>DatumGetInt64\<close> all of it. Reading an integer out of a text pointer has no defined
  result (\<open>None\<close>).
\<close>

definition Int32GetDatum :: "int32 \<Rightarrow> Datum" where
  "Int32GetDatum X = DatumValue (scast X)"

fun DatumGetInt32 :: "Datum \<Rightarrow> int32 option" where
  "DatumGetInt32 (DatumValue v) = Some (ucast v)"
| "DatumGetInt32 (DatumText s) = None"

fun DatumGetInt64 :: "Datum \<Rightarrow> int64 option" where
  "DatumGetInt64 (DatumValue v) = Some v"
| "DatumGetInt64 (DatumText s) = None"

definition CStringGetTextDatum :: "string \<Rightarrow> Datum" where
  "CStringGetTextDatum s = DatumText s"

text \<open>\<open>TextDatumGetCString\<close> follows the pointer; \<open>(Datum) 0\<close> is the NULL pointer.\<close>

fun TextDatumGetCString :: "Datum \<Rightarrow> string option" where
  "TextDatumGetCString (DatumText s) = Some s"
| "TextDatumGetCString (DatumValue v) = None"

datatype sqlstate = ERRCODE_INTERNAL_ERROR | ERRCODE_INVALID_PARAMETER_VALUE

text \<open>
  \<open>PgError\<close> is an error raised with \<open>elog(ERROR, ...)\<close> or \<open>ereport(ERROR, ...)\<close>: its
  SQLSTATE and message. \<open>UndefinedBehaviour\<close> is what C leaves undefined and the model
  keeps apart: a NULL pointer handed to \<open>strlen\<close>, a read past the end of an array.
\<close>

datatype error = PgError sqlstate string | UndefinedBehaviour

text \<open>\<open>elog(ERROR, msg)\<close> carries no explicit code, and neither does an \<open>ereport\<close>
  without \<open>errcode\<close>: both get \<open>ERRCODE_INTERNAL_ERROR\<close>.\<close>

definition elog_ERROR :: "string \<Rightarrow> error" where
  "elog_ERROR msg = PgError ERRCODE_INTERNAL_ERROR msg"

text \<open>The macro is declared in a header that is not part of the sources at hand; the
  value is the qualified name of the table whose sequence the insert statement names.\<close>

definition AUTO_FAILOVER_ARCHIVER_TABLE :: string where
  "AUTO_FAILOVER_ARCHIVER_TABLE = ''pgautofailover.archiver''"

text \<open>The error names of the specification, as the source raises them.\<close>

definition RepositoryError :: "error \<Rightarrow> bool" where
  "RepositoryError e \<longleftrightarrow>
     e = elog_ERROR (''could not select from '' @ AUTO_FAILOVER_ARCHIVER_TABLE) \<or>
     e = elog_ERROR (''could not insert into '' @ AUTO_FAILOVER_ARCHIVER_TABLE) \<or>
     e = elog_ERROR (''could not delete from '' @ AUTO_FAILOVER_ARCHIVER_TABLE)"

definition InvalidArgument :: error where
  "InvalidArgument =
     PgError ERRCODE_INVALID_PARAMETER_VALUE ''the given archiver must not be NULL''"

definition SchemaMismatch :: error where
  "SchemaMismatch = PgError ERRCODE_INTERNAL_ERROR ''return type must be a row type''"

subsection \<open>The archiver record and the table\<close>

text \<open>
  Modelled from the spec: the declaration of \<open>struct AutoFailoverArchiver\<close> is in
  archiver_metadata.h, which is not among the sources; the specification gives a 64-bit
  signed \<open>nodeId\<close> and two strings, and \<open>GetArchiver\<close> fills \<open>nodeId\<close> with
  \<open>DatumGetInt64\<close>.
\<close>

record AutoFailoverArchiver =
  nodeId :: int64
  nodeName :: string
  nodeHost :: string

text \<open>
  Modelled from the spec: the table is created by the extension's SQL script, which is
  not among the sources. Its persisted layout is the columns \<open>nodeid\<close> (unique integer,
  sequence-backed), \<open>nodename\<close> (text) and \<open>nodehost\<close> (text, never null), in this
  order; \<open>Anum_pgautofailover_archiver_*\<close> are the column numbers.
\<close>

record archiver_row =
  nodeid :: int64
  nodename :: string
  nodehost :: string

definition Anum_pgautofailover_archiver_nodeid :: nat where
  "Anum_pgautofailover_archiver_nodeid = 1"

definition Anum_pgautofailover_archiver_nodename :: nat where
  "Anum_pgautofailover_archiver_nodename = 2"

definition Anum_pgautofailover_archiver_nodehost :: nat where
  "Anum_pgautofailover_archiver_nodehost = 3"

text \<open>A tuple is its attributes in column order, \<open>None\<close> for an SQL NULL.\<close>

type_synonym HeapTuple = "Datum option list"

definition row_tuple :: "archiver_row \<Rightarrow> HeapTuple" where
  "row_tuple r =
     [Some (DatumValue (nodeid r)), Some (DatumText (nodename r)), Some (DatumText (nodehost r))]"

text \<open>\<open>heap_getattr\<close> and \<open>SPI_getbinval\<close> return the attribute and set \<open>isNull\<close>; a
  NULL attribute, or one past the tuple's last, reads as \<open>(Datum) 0\<close>.\<close>

definition heap_getattr :: "HeapTuple \<Rightarrow> nat \<Rightarrow> Datum \<times> bool" where
  "heap_getattr tup attnum =
     (if 0 < attnum \<and> attnum \<le> length tup
      then (case tup ! (attnum - 1) of
              None \<Rightarrow> (DatumValue 0, True)
            | Some d \<Rightarrow> (d, False))
      else (DatumValue 0, True))"

definition SPI_getbinval :: "HeapTuple \<Rightarrow> nat \<Rightarrow> Datum \<times> bool" where
  "SPI_getbinval tup fnumber = heap_getattr tup fnumber"

subsection \<open>The query executor (SPI)\<close>

text \<open>
  Modelled from the spec: the Query Executor is PostgreSQL's SPI, an external
  collaborator. It executes one parameterised statement against the store and returns a
  status (select-ok, insert-ok, insert-ok-with-returned-rows, delete-ok, or a failure)
  and a result set; \<open>SPI_connect\<close> and \<open>SPI_finish\<close> open and close a session.
  \<open>executor_failure\<close> says that the executor cannot run the next statement (store
  unreachable, malformed statement) and reports a failure status.
  \<open>insert_skipped\<close> says that the store adds no row for an insert statement that it
  executes (the specification's insert that affects zero rows, its post-condition
  "insert always returns exactly one row" violated; a trigger on the table that skips
  the row does this): the statement reports insert-ok-with-returned-rows, zero rows
  processed and an empty result set.
\<close>

record world =
  archiver_table :: "archiver_row list"
  archiver_nodeid_seq :: int64
  executor_failure :: bool
  insert_skipped :: bool
  SPI_connected :: nat
  SPI_processed :: nat
  SPI_tuptable :: "HeapTuple list"

datatype spi_status =
    SPI_OK_SELECT | SPI_OK_INSERT | SPI_OK_DELETE | SPI_OK_INSERT_RETURNING
  | SPI_ERROR_UNCONNECTED | SPI_ERROR_ARGUMENT | SPI_ERROR_TRANSACTION

definition SPI_connect :: "world \<Rightarrow> world" where
  "SPI_connect w = w\<lparr>SPI_connected := Suc (SPI_connected w)\<rparr>"

definition SPI_finish :: "world \<Rightarrow> world" where
  "SPI_finish w =
     w\<lparr>SPI_connected := SPI_connected w - 1, SPI_processed := 0, SPI_tuptable := []\<rparr>"

text \<open>
  Modelled from the spec: what follows a raise is PostgreSQL's, not this file's.
  \<open>elog(ERROR, ...)\<close> and \<open>ereport(ERROR, ...)\<close> do not return into the function that
  calls them: the error unwinds into the abort of the transaction, and the abort drops
  the SPI stack (\<open>AtEOXact_SPI\<close>), so that the scoped session is released on the error
  paths too. The abort of a subtransaction drops the sessions opened within it, among
  them the one that the raising operation opened; the model takes the abort of the
  transaction. No statement that fails here has changed a row, and a sequence keeps
  its advance: table and sequence are as the raise found them.
\<close>

definition AtEOXact_SPI :: "world \<Rightarrow> world" where
  "AtEOXact_SPI w = w\<lparr>SPI_connected := 0, SPI_processed := 0, SPI_tuptable := []\<rparr>"

definition raise_ERROR :: "error \<Rightarrow> world \<Rightarrow> (error + 'a) \<times> world" where
  "raise_ERROR e w = (Inl e, AtEOXact_SPI w)"

text \<open>The three statements of the file, by the name of the C variable that holds the
  text:
  \<^item> \<open>selectQuery\<close>: \<^verbatim>\<open>SELECT * FROM pgautofailover.archiver WHERE nodeId = $1\<close>
  \<^item> \<open>insertQuery\<close>: \<^verbatim>\<open>WITH seq(nodeid) AS (SELECT nextval('pgautofailover.archiver_nodeid_seq'::regclass)) INSERT INTO pgautofailover.archiver (nodename, nodehost) SELECT case when $1 is null then format('archiver_%s', seq.nodeid) else $1 end, $2 FROM seq RETURNING nodeid\<close>
  \<^item> \<open>deleteQuery\<close>: \<^verbatim>\<open>DELETE FROM pgautofailover.archiver WHERE nodeid = $1\<close>
\<close>

datatype statement = selectQuery | insertQuery | deleteQuery

datatype sql_value = SqlNull | SqlInt int64 | SqlText string

text \<open>A parameter is read according to its declared type: an \<open>INT4OID\<close> parameter is the
  low 32 bits of the datum, sign-extended when it meets the 64-bit column.\<close>

fun bind_param :: "Oid \<Rightarrow> Datum \<Rightarrow> char \<Rightarrow> sql_value option" where
  "bind_param ty d c =
     (if c = CHR ''n'' then Some SqlNull
      else (case (ty, d) of
              (INT8OID, DatumValue v) \<Rightarrow> Some (SqlInt v)
            | (INT4OID, DatumValue v) \<Rightarrow> Some (SqlInt (scast (ucast v :: int32)))
            | (TEXTOID, DatumText s) \<Rightarrow> Some (SqlText s)
            | _ \<Rightarrow> None))"

fun bind_params :: "Oid list \<Rightarrow> Datum list \<Rightarrow> char list \<Rightarrow> sql_value list option" where
  "bind_params [] [] [] = Some []"
| "bind_params (ty # tys) (d # ds) (c # cs) =
     (case bind_param ty d c of
        None \<Rightarrow> None
      | Some v \<Rightarrow> (case bind_params tys ds cs of None \<Rightarrow> None | Some vs \<Rightarrow> Some (v # vs)))"
| "bind_params _ _ _ = None"

text \<open>\<open>nextval\<close> advances the sequence and returns the new value; the advance is kept
  even if the statement fails later. A sequence at its maximum cannot advance.\<close>

definition nextval :: "world \<Rightarrow> (int64 \<times> world) option" where
  "nextval w =
     (if archiver_nodeid_seq w = 0x7FFFFFFFFFFFFFFF then None
      else Some (archiver_nodeid_seq w + 1,
                 w\<lparr>archiver_nodeid_seq := archiver_nodeid_seq w + 1\<rparr>))"

text \<open>\<open>format('archiver_%s', seq.nodeid)\<close> prints the 64-bit integer in decimal.\<close>

definition digit_char :: "int \<Rightarrow> char" where
  "digit_char d = char_of (48 + d)"

function decimal :: "int \<Rightarrow> string" where
  "decimal n =
     (if n < 10 then [digit_char n] else decimal (n div 10) @ [digit_char (n mod 10)])"
  by pat_completeness auto
termination
  by (relation "measure nat") auto

definition int8out :: "int64 \<Rightarrow> string" where
  "int8out v = (if sint v < 0 then ''-'' @ decimal (- sint v) else decimal (sint v))"

definition limit_rows :: "nat \<Rightarrow> 'a list \<Rightarrow> 'a list" where
  "limit_rows tcount xs = (if tcount = 0 then xs else take tcount xs)"

definition statement_failed :: "spi_status \<Rightarrow> world \<Rightarrow> spi_status \<times> world" where
  "statement_failed st w = (st, w\<lparr>SPI_processed := 0, SPI_tuptable := []\<rparr>)"

definition exec_select :: "sql_value list \<Rightarrow> nat \<Rightarrow> world \<Rightarrow> spi_status \<times> world" where
  "exec_select params tcount w =
     (case params of
        [SqlInt v] \<Rightarrow>
          (let found = limit_rows tcount (filter (\<lambda>r. nodeid r = v) (archiver_table w))
           in (SPI_OK_SELECT,
               w\<lparr>SPI_processed := length found, SPI_tuptable := map row_tuple found\<rparr>))
      | [SqlNull] \<Rightarrow> (SPI_OK_SELECT, w\<lparr>SPI_processed := 0, SPI_tuptable := []\<rparr>)
      | _ \<Rightarrow> statement_failed SPI_ERROR_ARGUMENT w)"

text \<open>
  Modelled from the spec: the default of the column \<open>nodeid\<close>, set by the table's
  declaration, which is not among the sources. The persisted layout gives the column as
  sequence-backed and the identifier as assigned by the store's identifier sequence when
  the row is created: the default is the next value of
  \<open>pgautofailover.archiver_nodeid_seq\<close>, the sequence that the insert statement names.
\<close>

definition nodeid_default :: "world \<Rightarrow> (int64 \<times> world) option" where
  "nodeid_default w = nextval w"

text \<open>
  The insert statement, as its text reads. The common table expression \<open>seq\<close> calls
  \<open>nextval\<close> once and the name is computed from that value when \<open>$1\<close> is null. The
  column list of the INSERT is \<open>(nodename, nodehost)\<close>: the statement gives no value for
  the column \<open>nodeid\<close>, so the row takes that column's default, and \<open>RETURNING nodeid\<close>
  returns it. A null \<open>$2\<close> violates the not-null constraint of \<open>nodehost\<close> and the
  statement fails. Where the store skips the row, the two values of the sequence have
  been drawn all the same.
\<close>

definition exec_insert :: "sql_value list \<Rightarrow> world \<Rightarrow> spi_status \<times> world" where
  "exec_insert params w =
     (case params of
        [p1, p2] \<Rightarrow>
          (case nextval w of
             None \<Rightarrow> statement_failed SPI_ERROR_TRANSACTION w
           | Some (seq_nodeid, w1) \<Rightarrow>
               (case (case p1 of
                        SqlNull \<Rightarrow> Some (''archiver_'' @ int8out seq_nodeid)
                      | SqlText name \<Rightarrow> Some name
                      | SqlInt i \<Rightarrow> None) of
                  None \<Rightarrow> statement_failed SPI_ERROR_ARGUMENT w1
                | Some name \<Rightarrow>
                    (case nodeid_default w1 of
                       None \<Rightarrow> statement_failed SPI_ERROR_TRANSACTION w1
                     | Some (default_nodeid, w2) \<Rightarrow>
                         (case p2 of
                            SqlText host \<Rightarrow>
                              (if insert_skipped w2
                               then (SPI_OK_INSERT_RETURNING,
                                     w2\<lparr>SPI_processed := 0, SPI_tuptable := []\<rparr>)
                               else (SPI_OK_INSERT_RETURNING,
                                     w2\<lparr>archiver_table := archiver_table w2 @
                                           [\<lparr>nodeid = default_nodeid, nodename = name,
                                             nodehost = host\<rparr>],
                                        SPI_processed := 1,
                                        SPI_tuptable := [[Some (DatumValue default_nodeid)]]\<rparr>))
                          | SqlNull \<Rightarrow> statement_failed SPI_ERROR_TRANSACTION w2
                          | SqlInt i \<Rightarrow> statement_failed SPI_ERROR_ARGUMENT w2))))
      | _ \<Rightarrow> statement_failed SPI_ERROR_ARGUMENT w)"

definition exec_delete :: "sql_value list \<Rightarrow> world \<Rightarrow> spi_status \<times> world" where
  "exec_delete params w =
     (case params of
        [SqlInt v] \<Rightarrow>
          (SPI_OK_DELETE,
           w\<lparr>archiver_table := filter (\<lambda>r. nodeid r \<noteq> v) (archiver_table w),
             SPI_processed := length (filter (\<lambda>r. nodeid r = v) (archiver_table w)),
             SPI_tuptable := []\<rparr>)
      | [SqlNull] \<Rightarrow> (SPI_OK_DELETE, w\<lparr>SPI_processed := 0, SPI_tuptable := []\<rparr>)
      | _ \<Rightarrow> statement_failed SPI_ERROR_ARGUMENT w)"

text \<open>\<open>argNulls = NULL\<close> means that no parameter is null; otherwise the character
  \<open>'n'\<close> marks a null parameter.\<close>

definition SPI_execute_with_args ::
  "statement \<Rightarrow> Oid list \<Rightarrow> Datum list \<Rightarrow> char list option \<Rightarrow> bool \<Rightarrow> nat \<Rightarrow> world
     \<Rightarrow> spi_status \<times> world" where
  "SPI_execute_with_args src argtypes Values Nulls read_only tcount w =
     (if SPI_connected w = 0 then (SPI_ERROR_UNCONNECTED, w)
      else if executor_failure w then statement_failed SPI_ERROR_TRANSACTION w
      else (case bind_params argtypes Values
                   (case Nulls of None \<Rightarrow> replicate (length Values) (CHR '' '') | Some ns \<Rightarrow> ns) of
              None \<Rightarrow> statement_failed SPI_ERROR_ARGUMENT w
            | Some params \<Rightarrow>
                (case src of
                   selectQuery \<Rightarrow> exec_select params tcount w
                 | insertQuery \<Rightarrow> exec_insert params w
                 | deleteQuery \<Rightarrow> exec_delete params w)))"

subsection \<open>GetArchiver\<close>

text \<open>
  \<open>GetArchiver(int nodeId)\<close>: the parameter is a C \<open>int\<close>. \<open>elog(ERROR, ...)\<close> leaves the
  function at once: the \<open>SPI_finish\<close> at its end is not reached on that path, and the
  session is released by the abort that the error unwinds into. The
  values of \<open>isNull\<close> are not looked at. The switch to the caller's memory context
  makes the record outlive the session; in the model the record is a value.
\<close>

definition GetArchiver :: "int32 \<Rightarrow> world \<Rightarrow> (error + AutoFailoverArchiver option) \<times> world" where
  "GetArchiver nodeIdArg w =
     (let argTypes = [INT8OID];
          argValues = [Int32GetDatum nodeIdArg];
          w1 = SPI_connect w;
          (spiStatus, w2) = SPI_execute_with_args selectQuery argTypes argValues None False 1 w1
      in if spiStatus \<noteq> SPI_OK_SELECT
         then raise_ERROR (elog_ERROR (''could not select from '' @ AUTO_FAILOVER_ARCHIVER_TABLE)) w2
         else if SPI_processed w2 > 0
         then (case SPI_tuptable w2 of
                 [] \<Rightarrow> (Inl UndefinedBehaviour, w2)
               | heapTuple # _ \<Rightarrow>
                   (let (nodeIdDatum, isNull1) =
                          heap_getattr heapTuple Anum_pgautofailover_archiver_nodeid;
                        (nodeNameDatum, isNull2) =
                          heap_getattr heapTuple Anum_pgautofailover_archiver_nodename;
                        (nodeHostDatum, isNull3) =
                          heap_getattr heapTuple Anum_pgautofailover_archiver_nodehost
                    in (case (DatumGetInt64 nodeIdDatum,
                              TextDatumGetCString nodeNameDatum,
                              TextDatumGetCString nodeHostDatum) of
                          (Some i, Some n, Some h) \<Rightarrow>
                            (Inr (Some \<lparr>nodeId = i, nodeName = n, nodeHost = h\<rparr>), SPI_finish w2)
                        | _ \<Rightarrow> (Inl UndefinedBehaviour, w2))))
         else (Inr None, SPI_finish w2))"

subsection \<open>AddArchiver\<close>

text \<open>
  \<open>int AddArchiver(const char *nodeName, const char *nodeHost)\<close>. \<open>nodeName\<close> is tested
  against NULL; \<open>nodeHost\<close> is handed to \<open>CStringGetTextDatum\<close> as it is, in the
  initialiser of \<open>argValues\<close> and so before the session is opened, and that function
  takes the length of the string it is given. The result is an \<open>int\<close>, read from the
  returned column with \<open>DatumGetInt32\<close>.
\<close>

definition AddArchiver :: "string option \<Rightarrow> string option \<Rightarrow> world \<Rightarrow> (error + int32) \<times> world" where
  "AddArchiver nodeNameArg nodeHostArg w =
     (case nodeHostArg of
        None \<Rightarrow> (Inl UndefinedBehaviour, w)
      | Some host \<Rightarrow>
          (let argTypes = [TEXTOID, TEXTOID];
               argValues = [case nodeNameArg of
                              None \<Rightarrow> DatumValue 0
                            | Some name \<Rightarrow> CStringGetTextDatum name,
                            CStringGetTextDatum host];
               argNulls = [if nodeNameArg = None then CHR ''n'' else CHR '' '', CHR '' ''];
               w1 = SPI_connect w;
               (spiStatus, w2) =
                 SPI_execute_with_args insertQuery argTypes argValues (Some argNulls) False 0 w1
           in if spiStatus = SPI_OK_INSERT_RETURNING \<and> SPI_processed w2 > 0
              then (case SPI_tuptable w2 of
                      [] \<Rightarrow> (Inl UndefinedBehaviour, w2)
                    | tup # _ \<Rightarrow>
                        (let (nodeIdDatum, isNull) = SPI_getbinval tup 1
                         in (case DatumGetInt32 nodeIdDatum of
                               None \<Rightarrow> (Inl UndefinedBehaviour, w2)
                             | Some nodeIdRes \<Rightarrow> (Inr nodeIdRes, SPI_finish w2))))
              else raise_ERROR
                     (elog_ERROR (''could not insert into '' @ AUTO_FAILOVER_ARCHIVER_TABLE)) w2))"

subsection \<open>RemoveArchiver\<close>

text \<open>
  \<open>void RemoveArchiver(AutoFailoverArchiver *archiver)\<close>: the pointer is dereferenced
  without a test, the model takes the record it points to. The parameter of the
  statement is declared \<open>INT4OID\<close> and built with \<open>Int32GetDatum\<close>.
\<close>

definition RemoveArchiver :: "AutoFailoverArchiver \<Rightarrow> world \<Rightarrow> (error + unit) \<times> world" where
  "RemoveArchiver archiver w =
     (let argTypes = [INT4OID];
          argValues = [Int32GetDatum (ucast (nodeId archiver))];
          w1 = SPI_connect w;
          (spiStatus, w2) = SPI_execute_with_args deleteQuery argTypes argValues None False 0 w1
      in if spiStatus \<noteq> SPI_OK_DELETE
         then raise_ERROR (elog_ERROR (''could not delete from '' @ AUTO_FAILOVER_ARCHIVER_TABLE)) w2
         else (Inr (), SPI_finish w2))"

subsection \<open>AutoFailoverArchiverGetDatum\<close>

text \<open>
  \<open>get_call_result_type(fcinfo, NULL, &resultDescriptor)\<close> classifies the result type
  that the caller of the SQL function declared, and gives its tuple descriptor when
  there is one. A descriptor is the list of its attributes' types.
\<close>

datatype TypeFuncClass =
    TYPEFUNC_SCALAR | TYPEFUNC_COMPOSITE | TYPEFUNC_COMPOSITE_DOMAIN
  | TYPEFUNC_RECORD | TYPEFUNC_OTHER

type_synonym TupleDesc = "Oid list"

datatype FunctionCallInfo =
    ReturnsScalar Oid
  | ReturnsComposite TupleDesc
  | ReturnsCompositeDomain TupleDesc
  | ReturnsRecord
  | ReturnsOther

fun get_call_result_type :: "FunctionCallInfo \<Rightarrow> TypeFuncClass \<times> TupleDesc option" where
  "get_call_result_type (ReturnsScalar ty) = (TYPEFUNC_SCALAR, None)"
| "get_call_result_type (ReturnsComposite desc) = (TYPEFUNC_COMPOSITE, Some desc)"
| "get_call_result_type (ReturnsCompositeDomain desc) = (TYPEFUNC_COMPOSITE_DOMAIN, Some desc)"
| "get_call_result_type ReturnsRecord = (TYPEFUNC_RECORD, None)"
| "get_call_result_type ReturnsOther = (TYPEFUNC_OTHER, None)"

text \<open>
  \<open>heap_form_tuple\<close> builds a tuple with as many attributes as the descriptor has. An
  attribute that is not null is stored as its column's type says: an 8-byte integer
  column takes the datum whole, a 4-byte integer column its low 32 bits (read back
  sign-extended), a text column follows the datum as a pointer to the text. A datum of
  the other kind has no defined result there (an integer read as a pointer, a pointer
  stored as an integer). With a descriptor longer than the arrays \<open>values\<close> and
  \<open>isnull\<close> the function reads past their end.
\<close>

fun form_attribute :: "Oid \<Rightarrow> Datum \<Rightarrow> Datum option" where
  "form_attribute INT8OID (DatumValue v) = Some (DatumValue v)"
| "form_attribute INT4OID (DatumValue v) = Some (DatumValue (scast (ucast v :: int32)))"
| "form_attribute TEXTOID (DatumText s) = Some (DatumText s)"
| "form_attribute _ _ = None"

fun heap_form_tuple :: "TupleDesc \<Rightarrow> Datum list \<Rightarrow> bool list \<Rightarrow> HeapTuple option" where
  "heap_form_tuple [] vals isnull = Some []"
| "heap_form_tuple (atttype # tupleDescriptor) (v # vals) (n # isnull) =
     (if n then map_option (Cons None) (heap_form_tuple tupleDescriptor vals isnull)
      else (case form_attribute atttype v of
              None \<Rightarrow> None
            | Some d \<Rightarrow> map_option (Cons (Some d)) (heap_form_tuple tupleDescriptor vals isnull)))"
| "heap_form_tuple (atttype # tupleDescriptor) _ _ = None"

text \<open>The result is the datum of the tuple (\<open>HeapTupleGetDatum\<close>); the model returns the
  tuple.\<close>

definition AutoFailoverArchiverGetDatum ::
  "FunctionCallInfo \<Rightarrow> AutoFailoverArchiver option \<Rightarrow> error + HeapTuple" where
  "AutoFailoverArchiverGetDatum fcinfo archiver =
     (case archiver of
        None \<Rightarrow>
          Inl (PgError ERRCODE_INVALID_PARAMETER_VALUE ''the given archiver must not be NULL'')
      | Some a \<Rightarrow>
          (let vals0 = replicate 3 (DatumValue 0);
               isNulls = replicate 3 False;
               vals1 = vals0[0 := Int32GetDatum (ucast (nodeId a))];
               vals2 = vals1[1 := CStringGetTextDatum (nodeName a)];
               vals3 = vals2[2 := CStringGetTextDatum (nodeHost a)];
               (resultTypeClass, resultDescriptor) = get_call_result_type fcinfo
           in if resultTypeClass \<noteq> TYPEFUNC_COMPOSITE
              then Inl (PgError ERRCODE_INTERNAL_ERROR ''return type must be a row type'')
              else (case resultDescriptor of
                      None \<Rightarrow> Inl UndefinedBehaviour
                    | Some desc \<Rightarrow>
                        (case heap_form_tuple desc vals3 isNulls of
                           None \<Rightarrow> Inl UndefinedBehaviour
                         | Some resultTuple \<Rightarrow> Inr resultTuple))))"

subsection \<open>Worlds at rest\<close>

text \<open>A world between two operations: no session is open and no result set is left;
  the store adds the rows that it is asked to insert.\<close>

definition idle_world :: "archiver_row list \<Rightarrow> int64 \<Rightarrow> bool \<Rightarrow> world" where
  "idle_world rows last_value failing =
     \<lparr>archiver_table = rows, archiver_nodeid_seq = last_value, executor_failure = failing,
      insert_skipped = False, SPI_connected = 0, SPI_processed = 0, SPI_tuptable = []\<rparr>"

section \<open>What each operation computes\<close>

lemma ucast_scast_int32: "ucast (scast (y :: int32) :: int64) = y"
  by (rule bit_word_eqI) (auto simp add: bit_simps)

lemma sint_low_half:
  assumes "- (2 ^ 31) \<le> sint (x :: int64)" and "sint x < 2 ^ 31"
  shows "sint (ucast x :: int32) = sint x"
proof -
  have "sint (ucast x :: int32) = signed_take_bit 31 (sint x)"
    by (rule bit_eqI) (auto simp add: bit_simps min_def)
  also have "\<dots> = sint x"
    using assms by (simp add: signed_take_bit_int_eq_self)
  finally show ?thesis .
qed

lemma exec_select_connected:
  "SPI_execute_with_args selectQuery [INT8OID] [Int32GetDatum n] None False 1 (SPI_connect w) =
     (if executor_failure w
      then (SPI_ERROR_TRANSACTION,
            w\<lparr>SPI_connected := Suc (SPI_connected w), SPI_processed := 0, SPI_tuptable := []\<rparr>)
      else (SPI_OK_SELECT,
            w\<lparr>SPI_connected := Suc (SPI_connected w),
              SPI_processed :=
                length (take 1 (filter (\<lambda>r. nodeid r = scast n) (archiver_table w))),
              SPI_tuptable :=
                map row_tuple (take 1 (filter (\<lambda>r. nodeid r = scast n) (archiver_table w)))\<rparr>))"
  by (simp add: SPI_execute_with_args_def SPI_connect_def statement_failed_def Int32GetDatum_def
        exec_select_def limit_rows_def Let_def)

lemma GetArchiver_eq:
  "GetArchiver n w =
     (if executor_failure w
      then (Inl (elog_ERROR (''could not select from '' @ AUTO_FAILOVER_ARCHIVER_TABLE)),
            w\<lparr>SPI_connected := 0, SPI_processed := 0, SPI_tuptable := []\<rparr>)
      else (case filter (\<lambda>r. nodeid r = scast n) (archiver_table w) of
              [] \<Rightarrow> (Inr None, w\<lparr>SPI_processed := 0, SPI_tuptable := []\<rparr>)
            | r # _ \<Rightarrow>
                (Inr (Some \<lparr>nodeId = nodeid r, nodeName = nodename r, nodeHost = nodehost r\<rparr>),
                 w\<lparr>SPI_processed := 0, SPI_tuptable := []\<rparr>)))"
  unfolding GetArchiver_def Let_def exec_select_connected
  by (simp add: SPI_finish_def raise_ERROR_def AtEOXact_SPI_def row_tuple_def heap_getattr_def
        Anum_pgautofailover_archiver_nodeid_def Anum_pgautofailover_archiver_nodename_def
        Anum_pgautofailover_archiver_nodehost_def split: list.split)

lemma AddArchiver_eq:
  "AddArchiver nm (Some h) w =
     (if executor_failure w \<or> archiver_nodeid_seq w = 0x7FFFFFFFFFFFFFFF
      then (Inl (elog_ERROR (''could not insert into '' @ AUTO_FAILOVER_ARCHIVER_TABLE)),
            w\<lparr>SPI_connected := 0, SPI_processed := 0, SPI_tuptable := []\<rparr>)
      else if archiver_nodeid_seq w + 1 = 0x7FFFFFFFFFFFFFFF
      then (Inl (elog_ERROR (''could not insert into '' @ AUTO_FAILOVER_ARCHIVER_TABLE)),
            w\<lparr>archiver_nodeid_seq := archiver_nodeid_seq w + 1,
              SPI_connected := 0, SPI_processed := 0, SPI_tuptable := []\<rparr>)
      else if insert_skipped w
      then (Inl (elog_ERROR (''could not insert into '' @ AUTO_FAILOVER_ARCHIVER_TABLE)),
            w\<lparr>archiver_nodeid_seq := archiver_nodeid_seq w + 2,
              SPI_connected := 0, SPI_processed := 0, SPI_tuptable := []\<rparr>)
      else (Inr (ucast (archiver_nodeid_seq w + 2)),
            w\<lparr>archiver_table := archiver_table w @
                 [\<lparr>nodeid = archiver_nodeid_seq w + 2,
                   nodename = (case nm of
                                 None \<Rightarrow> ''archiver_'' @ int8out (archiver_nodeid_seq w + 1)
                               | Some name \<Rightarrow> name),
                   nodehost = h\<rparr>],
              archiver_nodeid_seq := archiver_nodeid_seq w + 2,
              SPI_processed := 0, SPI_tuptable := []\<rparr>))"
  by (cases nm)
     (simp_all add: AddArchiver_def Let_def SPI_execute_with_args_def SPI_connect_def
        SPI_finish_def raise_ERROR_def AtEOXact_SPI_def statement_failed_def
        CStringGetTextDatum_def exec_insert_def nextval_def nodeid_default_def
        SPI_getbinval_def heap_getattr_def add.commute)

lemma AddArchiver_no_host: "AddArchiver nm None w = (Inl UndefinedBehaviour, w)"
  by (simp add: AddArchiver_def)

lemma RemoveArchiver_eq:
  "RemoveArchiver a w =
     (if executor_failure w
      then (Inl (elog_ERROR (''could not delete from '' @ AUTO_FAILOVER_ARCHIVER_TABLE)),
            w\<lparr>SPI_connected := 0, SPI_processed := 0, SPI_tuptable := []\<rparr>)
      else (Inr (),
            w\<lparr>archiver_table :=
                 filter (\<lambda>r. nodeid r \<noteq> scast (ucast (nodeId a) :: int32)) (archiver_table w),
              SPI_processed := 0, SPI_tuptable := []\<rparr>))"
  by (simp add: RemoveArchiver_def Let_def SPI_execute_with_args_def SPI_connect_def
        SPI_finish_def raise_ERROR_def AtEOXact_SPI_def statement_failed_def Int32GetDatum_def
        exec_delete_def ucast_scast_int32)

lemma RepositoryError_raised:
  "RepositoryError (elog_ERROR (''could not select from '' @ AUTO_FAILOVER_ARCHIVER_TABLE))"
  "RepositoryError (elog_ERROR (''could not insert into '' @ AUTO_FAILOVER_ARCHIVER_TABLE))"
  "RepositoryError (elog_ERROR (''could not delete from '' @ AUTO_FAILOVER_ARCHIVER_TABLE))"
  by (simp_all add: RepositoryError_def)


lemma GetDatum_NULL: "AutoFailoverArchiverGetDatum fcinfo None = Inl InvalidArgument"
  by (simp add: AutoFailoverArchiverGetDatum_def InvalidArgument_def)

lemma GetDatum_not_composite:
  "fst (get_call_result_type fcinfo) \<noteq> TYPEFUNC_COMPOSITE \<Longrightarrow>
   AutoFailoverArchiverGetDatum fcinfo (Some a) = Inl SchemaMismatch"
  by (cases fcinfo) (simp_all add: AutoFailoverArchiverGetDatum_def SchemaMismatch_def)

lemma GetDatum_composite:
  "AutoFailoverArchiverGetDatum (ReturnsComposite desc) (Some a) =
     (case heap_form_tuple desc
             [Int32GetDatum (ucast (nodeId a)), CStringGetTextDatum (nodeName a),
              CStringGetTextDatum (nodeHost a)]
             [False, False, False] of
        None \<Rightarrow> Inl UndefinedBehaviour
      | Some resultTuple \<Rightarrow> Inr resultTuple)"
  by (simp add: AutoFailoverArchiverGetDatum_def Let_def numeral_3_eq_3)

lemma scast_low_half:
  assumes "- (2 ^ 31) \<le> sint (x :: int64)" and "sint x < 2 ^ 31"
  shows "scast (ucast x :: int32) = x"
proof -
  have "sint (scast (ucast x :: int32) :: int64) = sint (ucast x :: int32)"
    by (simp add: sint_up_scast is_up)
  also have "\<dots> = sint x"
    using assms by (rule sint_low_half)
  finally show ?thesis
    by (rule signed_word_eqI)
qed

section \<open>The claims\<close>

text \<open>
  Claim C1. For every call of Add with an absent nodeName and a valid nodeHost, the
  stored nodeName should be \<open>archiver_\<close> followed by the nodeId that this very insert
  allocated. The code evaluated on the empty table with a fresh sequence: the insert
  statement draws 1 from the sequence for the name, and the row, for which the statement
  supplies no nodeid, takes its column default, the next value 2. The stored row is
  \<open>(2, archiver_1, host)\<close> and 2 is returned.
\<close>

theorem AddArchiver_names_row_after_other_identifier:
  "AddArchiver None (Some ''10.0.0.5:5432'') (idle_world [] 0 False) =
     (Inr 2,
      idle_world [\<lparr>nodeid = 2, nodename = ''archiver_1'', nodehost = ''10.0.0.5:5432''\<rparr>]
        2 False)"
  by code_simp

text \<open>
  Claim C2. Add followed by Get on the returned nodeId should yield a record with the
  supplied nodeHost and, when nodeName was omitted, the name \<open>archiver_\<close> followed by
  the returned nodeId. The code evaluated on the empty table with a fresh sequence: Add
  returns 2 and Get of 2 yields the name \<open>archiver_1\<close>.
\<close>

theorem AddArchiver_then_GetArchiver_generated_name:
  "(case AddArchiver None (Some ''10.0.0.5:5432'') (idle_world [] 0 False) of
      (returned, w) \<Rightarrow> (returned, fst (GetArchiver 2 w))) =
     (Inr 2,
      Inr (Some \<lparr>nodeId = 2, nodeName = ''archiver_1'', nodeHost = ''10.0.0.5:5432''\<rparr>))"
  by code_simp

text \<open>
  Claim C3. For every nodeId with no matching row in the store, Get returns the explicit
  absent value and raises nothing; Get raises only when the select statement itself
  fails to execute, and what it raises then is the RepositoryError.
\<close>

theorem GetArchiver_absent_is_no_error:
  "((\<forall>r \<in> set (archiver_table w). nodeid r \<noteq> scast nodeIdArg) \<longrightarrow> \<not> executor_failure w \<longrightarrow>
      fst (GetArchiver nodeIdArg w) = Inr None) \<and>
   ((\<exists>e. fst (GetArchiver nodeIdArg w) = Inl e) \<longleftrightarrow> executor_failure w) \<and>
   (\<forall>e. fst (GetArchiver nodeIdArg w) = Inl e \<longrightarrow> RepositoryError e)"
proof (intro conjI impI allI)
  assume "\<forall>r \<in> set (archiver_table w). nodeid r \<noteq> scast nodeIdArg" and "\<not> executor_failure w"
  then have "filter (\<lambda>r. nodeid r = scast nodeIdArg) (archiver_table w) = []"
    by (simp add: filter_empty_conv)
  with \<open>\<not> executor_failure w\<close> show "fst (GetArchiver nodeIdArg w) = Inr None"
    by (simp add: GetArchiver_eq)
next
  show "(\<exists>e. fst (GetArchiver nodeIdArg w) = Inl e) \<longleftrightarrow> executor_failure w"
    by (simp add: GetArchiver_eq split: list.split)
next
  fix e
  assume "fst (GetArchiver nodeIdArg w) = Inl e"
  then show "RepositoryError e"
    by (auto simp add: GetArchiver_eq RepositoryError_def split: if_splits list.splits)
qed

theorem GetArchiver_absent_is_no_error_witness:
  "map nodeid (archiver_table (idle_world [\<lparr>nodeid = 2, nodename = ''a'', nodehost = ''h''\<rparr>] 2 False)) =
     [2] \<and>
   (2 :: int64) \<noteq> scast (5 :: int32) \<and>
   \<not> executor_failure (idle_world [\<lparr>nodeid = 2, nodename = ''a'', nodehost = ''h''\<rparr>] 2 False) \<and>
   fst (GetArchiver 5 (idle_world [\<lparr>nodeid = 2, nodename = ''a'', nodehost = ''h''\<rparr>] 2 False)) =
     Inr None \<and>
   executor_failure (idle_world [] 0 True) \<and>
   (\<exists>e. fst (GetArchiver 5 (idle_world [] 0 True)) = Inl e \<and> RepositoryError e)"
  using GetArchiver_absent_is_no_error
          [of "idle_world [\<lparr>nodeid = 2, nodename = ''a'', nodehost = ''h''\<rparr>] 2 False" 5]
        GetArchiver_absent_is_no_error [of "idle_world [] 0 True" 5]
  by (auto simp add: idle_world_def)

text \<open>
  Claim C4. For every archiver record, Remove returns without raising when the delete
  matches zero rows, and the store (table and sequence) is then unchanged; it raises,
  and then the RepositoryError, only when the delete statement itself cannot execute.
  Remove never looks at the number of affected rows: it returns whenever the statement
  executes, however many rows the delete matched.
\<close>

theorem RemoveArchiver_zero_rows_is_no_error:
  "(\<not> executor_failure w \<longrightarrow> fst (RemoveArchiver archiver w) = Inr ()) \<and>
   (\<not> executor_failure w \<longrightarrow>
      (\<forall>r \<in> set (archiver_table w). nodeid r \<noteq> scast (ucast (nodeId archiver) :: int32)) \<longrightarrow>
      archiver_table (snd (RemoveArchiver archiver w)) = archiver_table w \<and>
      archiver_nodeid_seq (snd (RemoveArchiver archiver w)) = archiver_nodeid_seq w) \<and>
   ((\<exists>e. fst (RemoveArchiver archiver w) = Inl e) \<longleftrightarrow> executor_failure w) \<and>
   (\<forall>e. fst (RemoveArchiver archiver w) = Inl e \<longrightarrow> RepositoryError e)"
proof (intro conjI impI allI)
  assume "\<not> executor_failure w"
  then show "fst (RemoveArchiver archiver w) = Inr ()"
    by (simp add: RemoveArchiver_eq)
next
  assume ok: "\<not> executor_failure w"
    and none: "\<forall>r \<in> set (archiver_table w). nodeid r \<noteq> scast (ucast (nodeId archiver) :: int32)"
  from none have
    "filter (\<lambda>r. nodeid r \<noteq> scast (ucast (nodeId archiver) :: int32)) (archiver_table w) =
       archiver_table w"
    by (simp add: filter_id_conv)
  with ok show "archiver_table (snd (RemoveArchiver archiver w)) = archiver_table w"
    by (simp add: RemoveArchiver_eq)
  from ok show "archiver_nodeid_seq (snd (RemoveArchiver archiver w)) = archiver_nodeid_seq w"
    by (simp add: RemoveArchiver_eq)
next
  show "(\<exists>e. fst (RemoveArchiver archiver w) = Inl e) \<longleftrightarrow> executor_failure w"
    by (simp add: RemoveArchiver_eq)
next
  fix e
  assume "fst (RemoveArchiver archiver w) = Inl e"
  then show "RepositoryError e"
    by (auto simp add: RemoveArchiver_eq RepositoryError_def split: if_splits)
qed

theorem RemoveArchiver_zero_rows_is_no_error_witness:
  "\<not> executor_failure (idle_world [\<lparr>nodeid = 2, nodename = ''a'', nodehost = ''h''\<rparr>] 2 False) \<and>
   map nodeid (archiver_table (idle_world [\<lparr>nodeid = 2, nodename = ''a'', nodehost = ''h''\<rparr>] 2 False)) =
     [2] \<and>
   (2 :: int64) \<noteq> scast (ucast (nodeId \<lparr>nodeId = 9, nodeName = ''b'', nodeHost = ''h''\<rparr>) :: int32) \<and>
   fst (RemoveArchiver \<lparr>nodeId = 9, nodeName = ''b'', nodeHost = ''h''\<rparr>
          (idle_world [\<lparr>nodeid = 2, nodename = ''a'', nodehost = ''h''\<rparr>] 2 False)) = Inr () \<and>
   archiver_table (snd (RemoveArchiver \<lparr>nodeId = 9, nodeName = ''b'', nodeHost = ''h''\<rparr>
          (idle_world [\<lparr>nodeid = 2, nodename = ''a'', nodehost = ''h''\<rparr>] 2 False))) =
     [\<lparr>nodeid = 2, nodename = ''a'', nodehost = ''h''\<rparr>] \<and>
   executor_failure (idle_world [] 0 True) \<and>
   (\<exists>e. fst (RemoveArchiver \<lparr>nodeId = 9, nodeName = ''b'', nodeHost = ''h''\<rparr>
               (idle_world [] 0 True)) = Inl e \<and> RepositoryError e)"
  using RemoveArchiver_zero_rows_is_no_error
          [of "idle_world [\<lparr>nodeid = 2, nodename = ''a'', nodehost = ''h''\<rparr>] 2 False"
              "\<lparr>nodeId = 9, nodeName = ''b'', nodeHost = ''h''\<rparr>"]
        RemoveArchiver_zero_rows_is_no_error
          [of "idle_world [] 0 True" "\<lparr>nodeId = 9, nodeName = ''b'', nodeHost = ''h''\<rparr>"]
  by (auto simp add: idle_world_def)




text \<open>
  Claim C6. ToResponse raises InvalidArgument for every call whose archiver is NULL,
  whatever the expected shape, and so returns no tuple; and it raises SchemaMismatch
  for every call with an archiver whose expected shape is not the composite class.
\<close>

theorem GetDatum_rejects_NULL_and_non_row:
  "AutoFailoverArchiverGetDatum fcinfo None = Inl InvalidArgument \<and>
   (fst (get_call_result_type fcinfo) \<noteq> TYPEFUNC_COMPOSITE \<longrightarrow>
      AutoFailoverArchiverGetDatum fcinfo (Some a) = Inl SchemaMismatch)"
  by (simp add: GetDatum_NULL GetDatum_not_composite)

theorem GetDatum_rejects_NULL_and_non_row_witness:
  "fst (get_call_result_type (ReturnsScalar INT8OID)) \<noteq> TYPEFUNC_COMPOSITE \<and>
   AutoFailoverArchiverGetDatum (ReturnsScalar INT8OID) None = Inl InvalidArgument \<and>
   AutoFailoverArchiverGetDatum (ReturnsScalar INT8OID)
     (Some \<lparr>nodeId = 7, nodeName = ''archiver_7'', nodeHost = ''10.0.0.5:5432''\<rparr>) =
     Inl SchemaMismatch"
  using GetDatum_rejects_NULL_and_non_row
          [of "ReturnsScalar INT8OID"
              "\<lparr>nodeId = 7, nodeName = ''archiver_7'', nodeHost = ''10.0.0.5:5432''\<rparr>"]
  by simp

text \<open>
  Claim C7, as amended. For every archiver record and every composite expected shape
  that is compatible with what the function stores (three columns: an integer column,
  then two text columns), ToResponse returns a tuple of exactly three fields, an
  integer and two texts, in the order nodeId, nodeName, nodeHost, none of them null.
  The texts are the record's nodeName and nodeHost; the integer is the record's nodeId
  (stated here for a nodeId that fits 32 bits).
\<close>

theorem GetDatum_compatible_row_type:
  assumes "get_call_result_type fcinfo = (TYPEFUNC_COMPOSITE, Some [idType, TEXTOID, TEXTOID])"
    and "idType = INT8OID \<or> idType = INT4OID"
  shows "\<exists>idField.
           AutoFailoverArchiverGetDatum fcinfo (Some a) =
             Inr [Some (DatumValue idField), Some (DatumText (nodeName a)),
                  Some (DatumText (nodeHost a))] \<and>
           (- (2 ^ 31) \<le> sint (nodeId a) \<and> sint (nodeId a) < 2 ^ 31 \<longrightarrow> idField = nodeId a)"
proof -
  from assms(1) have fcinfo: "fcinfo = ReturnsComposite [idType, TEXTOID, TEXTOID]"
    by (cases fcinfo) simp_all
  from assms(2) show ?thesis
  proof
    assume "idType = INT8OID"
    with fcinfo show ?thesis
      by (simp add: GetDatum_composite Int32GetDatum_def CStringGetTextDatum_def scast_low_half)
  next
    assume "idType = INT4OID"
    with fcinfo show ?thesis
      by (simp add: GetDatum_composite Int32GetDatum_def CStringGetTextDatum_def
            ucast_scast_int32 scast_low_half)
  qed
qed

theorem GetDatum_compatible_row_type_witness:
  "get_call_result_type (ReturnsComposite [INT8OID, TEXTOID, TEXTOID]) =
     (TYPEFUNC_COMPOSITE, Some [INT8OID, TEXTOID, TEXTOID]) \<and>
   - (2 ^ 31) \<le> sint (7 :: int64) \<and> sint (7 :: int64) < 2 ^ 31 \<and>
   AutoFailoverArchiverGetDatum (ReturnsComposite [INT8OID, TEXTOID, TEXTOID])
     (Some \<lparr>nodeId = 7, nodeName = ''archiver_7'', nodeHost = ''10.0.0.5:5432''\<rparr>) =
     Inr [Some (DatumValue 7), Some (DatumText ''archiver_7''), Some (DatumText ''10.0.0.5:5432'')]"
  using GetDatum_compatible_row_type
          [of "ReturnsComposite [INT8OID, TEXTOID, TEXTOID]" INT8OID
              "\<lparr>nodeId = 7, nodeName = ''archiver_7'', nodeHost = ''10.0.0.5:5432''\<rparr>"]
  by auto

text \<open>
  Claim C7 as stated fails for a composite shape of two columns: the tuple is built
  with the caller's descriptor and has the descriptor's two fields.
\<close>

theorem GetDatum_two_columns_counterexample:
  "fst (get_call_result_type (ReturnsComposite [INT8OID, TEXTOID])) = TYPEFUNC_COMPOSITE \<and>
   AutoFailoverArchiverGetDatum (ReturnsComposite [INT8OID, TEXTOID])
     (Some \<lparr>nodeId = 7, nodeName = ''archiver_7'', nodeHost = ''10.0.0.5:5432''\<rparr>) =
     Inr [Some (DatumValue 7), Some (DatumText ''archiver_7'')]"
  by code_simp

text \<open>
  Claim C8. The nodeId should keep its 64 bits through Add, Remove and ToResponse. The
  code evaluated with the sequence at \<open>2^32\<close>: the inserted row has nodeid 4294967298
  and Add returns 2; Remove, given the record of nodeId 4294967298, deletes the row
  whose nodeid is 2 and keeps the row 4294967298.
\<close>

theorem nodeId_cut_to_32_bits:
  "AddArchiver None (Some ''10.0.0.5:5432'') (idle_world [] 4294967296 False) =
     (Inr 2,
      idle_world
        [\<lparr>nodeid = 4294967298, nodename = ''archiver_4294967297'', nodehost = ''10.0.0.5:5432''\<rparr>]
        4294967298 False) \<and>
   RemoveArchiver
     \<lparr>nodeId = 4294967298, nodeName = ''archiver_4294967297'', nodeHost = ''10.0.0.5:5432''\<rparr>
     (idle_world
        [\<lparr>nodeid = 2, nodename = ''archiver_1'', nodehost = ''10.0.0.4:5432''\<rparr>,
         \<lparr>nodeid = 4294967298, nodename = ''archiver_4294967297'', nodehost = ''10.0.0.5:5432''\<rparr>]
        4294967298 False) =
     (Inr (),
      idle_world
        [\<lparr>nodeid = 4294967298, nodename = ''archiver_4294967297'', nodehost = ''10.0.0.5:5432''\<rparr>]
        4294967298 False)"
  by code_simp

text \<open>
  Claim C9. Every repository operation (Get, Add, Remove) leaves no session of its own
  held, on whatever path it ends. Where it returns it has closed the session that it
  opened: as many sessions are open as before the call. Where it raises, the error
  unwinds into the abort, which releases the session: no more sessions are open than
  before the call. After an operation that started with no session open, completed or
  failed, no session is open.
\<close>

theorem session_released_on_every_exit:
  "SPI_connected (snd (GetArchiver nodeIdArg w)) \<le> SPI_connected w \<and>
   SPI_connected (snd (AddArchiver nodeNameArg nodeHostArg w)) \<le> SPI_connected w \<and>
   SPI_connected (snd (RemoveArchiver archiver w)) \<le> SPI_connected w \<and>
   (\<forall>r. fst (GetArchiver nodeIdArg w) = Inr r \<longrightarrow>
        SPI_connected (snd (GetArchiver nodeIdArg w)) = SPI_connected w) \<and>
   (\<forall>r. fst (AddArchiver nodeNameArg nodeHostArg w) = Inr r \<longrightarrow>
        SPI_connected (snd (AddArchiver nodeNameArg nodeHostArg w)) = SPI_connected w) \<and>
   (\<forall>r. fst (RemoveArchiver archiver w) = Inr r \<longrightarrow>
        SPI_connected (snd (RemoveArchiver archiver w)) = SPI_connected w) \<and>
   (SPI_connected w = 0 \<longrightarrow>
        SPI_connected (snd (GetArchiver nodeIdArg w)) = 0 \<and>
        SPI_connected (snd (AddArchiver nodeNameArg nodeHostArg w)) = 0 \<and>
        SPI_connected (snd (RemoveArchiver archiver w)) = 0)"
proof -
  have get: "SPI_connected (snd (GetArchiver nodeIdArg w)) \<le> SPI_connected w"
    by (simp add: GetArchiver_eq split: list.split)
  have add: "SPI_connected (snd (AddArchiver nodeNameArg nodeHostArg w)) \<le> SPI_connected w"
    by (cases nodeHostArg) (simp_all add: AddArchiver_eq AddArchiver_no_host)
  have remove: "SPI_connected (snd (RemoveArchiver archiver w)) \<le> SPI_connected w"
    by (simp add: RemoveArchiver_eq)
  have get_returns: "SPI_connected (snd (GetArchiver nodeIdArg w)) = SPI_connected w"
    if "fst (GetArchiver nodeIdArg w) = Inr r" for r
    using that by (auto simp add: GetArchiver_eq split: if_splits list.splits)
  have add_returns: "SPI_connected (snd (AddArchiver nodeNameArg nodeHostArg w)) = SPI_connected w"
    if "fst (AddArchiver nodeNameArg nodeHostArg w) = Inr r" for r
    using that
    by (cases nodeHostArg) (auto simp add: AddArchiver_eq AddArchiver_no_host split: if_splits)
  have remove_returns: "SPI_connected (snd (RemoveArchiver archiver w)) = SPI_connected w"
    if "fst (RemoveArchiver archiver w) = Inr r" for r
    using that by (auto simp add: RemoveArchiver_eq split: if_splits)
  from get add remove get_returns add_returns remove_returns show ?thesis
    by auto
qed

theorem session_released_on_every_exit_witness:
  "SPI_connected (idle_world [] 0 True) = 0 \<and>
   fst (GetArchiver 5 (idle_world [] 0 True)) =
     Inl (elog_ERROR (''could not select from '' @ AUTO_FAILOVER_ARCHIVER_TABLE)) \<and>
   SPI_connected (snd (GetArchiver 5 (idle_world [] 0 True))) = 0 \<and>
   SPI_connected (idle_world [] 0 False) = 0 \<and>
   fst (AddArchiver None (Some ''10.0.0.5:5432'') (idle_world [] 0 False)) = Inr 2 \<and>
   SPI_connected (snd (AddArchiver None (Some ''10.0.0.5:5432'') (idle_world [] 0 False))) = 0"
proof -
  have get: "fst (GetArchiver 5 (idle_world [] 0 True)) =
     Inl (elog_ERROR (''could not select from '' @ AUTO_FAILOVER_ARCHIVER_TABLE))"
    by code_simp
  have add: "fst (AddArchiver None (Some ''10.0.0.5:5432'') (idle_world [] 0 False)) = Inr 2"
    by code_simp
  have idle: "SPI_connected (idle_world [] 0 True) = 0" "SPI_connected (idle_world [] 0 False) = 0"
    by (simp_all add: idle_world_def)
  from session_released_on_every_exit
         [of 5 "idle_world [] 0 True" None "Some ''10.0.0.5:5432''" _] idle
  have a: "SPI_connected (snd (GetArchiver 5 (idle_world [] 0 True))) = 0"
    by blast
  from session_released_on_every_exit
         [of 5 "idle_world [] 0 False" None "Some ''10.0.0.5:5432''" _] idle
  have b: "SPI_connected (snd (AddArchiver None (Some ''10.0.0.5:5432'') (idle_world [] 0 False))) = 0"
    by blast
  from get add idle a b show ?thesis by simp
qed

text \<open>
  Claim C10. The NULL test of the archiver comes before the test of the expected shape:
  where the archiver is NULL and the shape is not composite, the error is
  InvalidArgument and not SchemaMismatch.
\<close>

theorem GetDatum_NULL_test_comes_first:
  assumes "fst (get_call_result_type fcinfo) \<noteq> TYPEFUNC_COMPOSITE"
  shows "AutoFailoverArchiverGetDatum fcinfo None = Inl InvalidArgument \<and>
         AutoFailoverArchiverGetDatum fcinfo None \<noteq> Inl SchemaMismatch"
  by (simp add: GetDatum_NULL InvalidArgument_def SchemaMismatch_def)

theorem GetDatum_NULL_test_comes_first_witness:
  "fst (get_call_result_type ReturnsRecord) \<noteq> TYPEFUNC_COMPOSITE \<and>
   AutoFailoverArchiverGetDatum ReturnsRecord None = Inl InvalidArgument \<and>
   AutoFailoverArchiverGetDatum ReturnsRecord None \<noteq> Inl SchemaMismatch"
proof -
  have shape: "fst (get_call_result_type ReturnsRecord) \<noteq> TYPEFUNC_COMPOSITE"
    by simp
  from shape GetDatum_NULL_test_comes_first [OF shape] show ?thesis
    by blast
qed

end
